theory Spec2Isabelle
  imports Complex_Main "HOL-Library.Sublist"
begin

section \<open>The play package: a registry of synthdefs and a key=value dispatcher\<close>

text \<open>
  The development embeds \<^verbatim>\<open>play.go\<close>: the \<^verbatim>\<open>App\<close> struct with its registry
  \<^verbatim>\<open>m\<close>, and the methods \<^verbatim>\<open>Add\<close>, \<^verbatim>\<open>List\<close>, \<^verbatim>\<open>Play\<close> and \<^verbatim>\<open>Run\<close>.
  Go strings are byte strings, as \<^typ>\<open>string\<close> is. The methods run sequentially here:
  every path of the source releases the lock \<^verbatim>\<open>mu\<close> it took, and the lock itself is
  not part of the state.
\<close>

subsection \<open>Errors of \<^verbatim>\<open>github.com/pkg/errors\<close>\<close>

text \<open>
  An error value is \<^verbatim>\<open>nil\<close> (\<open>None\<close>) or one of: a \<^verbatim>\<open>fundamental\<close> error
  holding its message (made by \<^verbatim>\<open>errors.New\<close> and \<^verbatim>\<open>errors.Errorf\<close>), an error
  wrapped with a message (made by \<^verbatim>\<open>errors.Wrap\<close>), or an error value \<open>'x\<close> handed
  back by a library (\<^verbatim>\<open>strconv\<close>, \<^verbatim>\<open>scid\<close>). Stack traces are left out.
\<close>

datatype 'x error =
    fundamental string
  | withMessage "'x error" string
  | library 'x

definition errors_New :: "string \<Rightarrow> 'x error" where
  "errors_New message = fundamental message"

definition Wrap :: "'x error option \<Rightarrow> string \<Rightarrow> 'x error option" where
  "Wrap err message = (case err of None \<Rightarrow> None | Some e \<Rightarrow> Some (withMessage e message))"

definition ErrDupl :: "'x error" where
  "ErrDupl = errors_New ''sound is already defined''"

subsection \<open>The libraries the package calls\<close>

text \<open>
  The world outside the package: what was written to standard output, and the calls
  that reached the playback backend \<^verbatim>\<open>scid.Play\<close>, in order.
\<close>

record ('d, 'f) world =
  stdout :: string
  played :: "('d \<times> (string \<rightharpoonup> 'f)) list"

text \<open>
  The functions of other packages are parameters of the model: \<open>'u\<close> is
  \<^verbatim>\<open>sc.UgenFunc\<close>, \<open>'d\<close> is \<^verbatim>\<open>*sc.Synthdef\<close>, \<open>'x\<close> the libraries' errors, \<open>'r\<close> is
  \<^verbatim>\<open>float64\<close> and \<open>'f\<close> is \<^verbatim>\<open>float32\<close>.
  \<^item> \<open>NewSynthdef\<close> is \<^verbatim>\<open>sc.NewSynthdef\<close>;
  \<^item> \<open>ParseFloat s bitSize\<close> is \<^verbatim>\<open>strconv.ParseFloat\<close>, \<open>Inl\<close> its error;
  \<^item> \<open>float32\<close> is the conversion \<^verbatim>\<open>float32(fv)\<close>;
  \<^item> \<open>scid_Play\<close> is the result of \<^verbatim>\<open>scid.Play\<close>, which may depend on the world;
  \<^item> \<open>range_order\<close> is the order in which \<^verbatim>\<open>range\<close> visits the keys of a map,
    which Go leaves unspecified;
  \<^item> \<open>Sprintf format\<close> is \<^verbatim>\<open>fmt.Sprintf(format)\<close>, a format with no operands.
\<close>

record ('u, 'd, 'x, 'r, 'f) externals =
  NewSynthdef :: "string \<Rightarrow> 'u \<Rightarrow> 'd"
  ParseFloat :: "string \<Rightarrow> nat \<Rightarrow> 'x + 'r"
  float32 :: "'r \<Rightarrow> 'f"
  scid_Play :: "('d, 'f) world \<Rightarrow> 'd \<Rightarrow> (string \<rightharpoonup> 'f) \<Rightarrow> 'x option"
  range_order :: "(string \<rightharpoonup> 'd) \<Rightarrow> string list"
  Sprintf :: "string \<Rightarrow> string"

text \<open>
  \<^verbatim>\<open>errors.Errorf(format)\<close> is a fundamental error whose message is
  \<^verbatim>\<open>fmt.Sprintf(format)\<close>. Both calls in \<^verbatim>\<open>Play\<close> pass the concatenated text as the
  format and no operand.
\<close>

definition Errorf :: "('u, 'd, 'x, 'r, 'f) externals \<Rightarrow> string \<Rightarrow> 'x error" where
  "Errorf ext format = fundamental (Sprintf ext format)"

subsection \<open>\<^verbatim>\<open>strings.Split\<close> with a one-byte separator\<close>

text \<open>
  \<^verbatim>\<open>strings.Split(s, sep)\<close> cuts \<open>s\<close> at every occurrence of \<open>sep\<close> and returns all
  the pieces; a string without the separator comes back as the only piece.
\<close>

fun Split :: "string \<Rightarrow> char \<Rightarrow> string list" where
  "Split [] sep = [[]]"
| "Split (c # s) sep =
     (if c = sep then [] # Split s sep
      else (case Split s sep of
              [] \<Rightarrow> [[c]]
            | piece # pieces \<Rightarrow> (c # piece) # pieces))"

subsection \<open>The application\<close>

record 'd App =
  list :: bool
  sound :: string
  m :: "string \<rightharpoonup> 'd"

text \<open>\<^verbatim>\<open>New\<close>: an empty registry, and the two flags at their defaults.\<close>

definition New :: "'d App" where
  "New = \<lparr>list = False, sound = [], m = Map.empty\<rparr>"

text \<open>\<^verbatim>\<open>Add\<close> returns the error and the application after the call.\<close>

definition Add ::
  "('u, 'd, 'x, 'r, 'f) externals \<Rightarrow> 'd App \<Rightarrow> string \<Rightarrow> 'u \<Rightarrow> 'x error option \<times> 'd App" where
  "Add ext app name f =
     (case m app name of
        Some existing \<Rightarrow> (Some ErrDupl, app)
      | None \<Rightarrow> (None, app\<lparr>m := (m app)(name \<mapsto> NewSynthdef ext name f)\<rparr>))"

text \<open>\<^verbatim>\<open>List\<close> prints each name and a newline.\<close>

definition Println :: "string \<Rightarrow> string \<Rightarrow> string" where
  "Println out line = out @ line @ [CHR 0x0A]"

definition List ::
  "('u, 'd, 'x, 'r, 'f) externals \<Rightarrow> 'd App \<Rightarrow> ('d, 'f) world \<Rightarrow> ('d, 'f) world" where
  "List ext app w = w\<lparr>stdout := foldl Println (stdout w) (range_order ext (m app))\<rparr>"

text \<open>
  The loop of \<^verbatim>\<open>Play\<close> over \<^verbatim>\<open>params\<close>, with the control map built so far; \<open>Inl\<close> is
  the error of the \<^verbatim>\<open>return\<close> inside the loop.
\<close>

fun Play_loop ::
  "('u, 'd, 'x, 'r, 'f) externals \<Rightarrow> (string \<rightharpoonup> 'f) \<Rightarrow> string list \<Rightarrow>
     'x error + (string \<rightharpoonup> 'f)" where
  "Play_loop ext ctls [] = Inr ctls"
| "Play_loop ext ctls (param # params) =
     (let a = Split param (CHR ''='') in
      if length a < 2 then Inl (Errorf ext (''could not parse key=value from '' @ param))
      else (case ParseFloat ext (a ! 1) 32 of
              Inl err \<Rightarrow> Inl (withMessage (library err) ''parsing control value'')
            | Inr fv \<Rightarrow> Play_loop ext (ctls(a ! 0 \<mapsto> float32 ext fv)) params))"

text \<open>
  \<^verbatim>\<open>Play\<close> returns the error and the world after the call. The call of the backend
  is appended to \<open>played\<close>.
\<close>

definition Play ::
  "('u, 'd, 'x, 'r, 'f) externals \<Rightarrow> 'd App \<Rightarrow> string \<Rightarrow> string list \<Rightarrow> ('d, 'f) world \<Rightarrow>
     'x error option \<times> ('d, 'f) world" where
  "Play ext app sname params w =
     (case m app sname of
        None \<Rightarrow> (Some (Errorf ext (''unrecognized sound: '' @ sname)), w)
      | Some def \<Rightarrow>
          (case Play_loop ext Map.empty params of
             Inl err \<Rightarrow> (Some err, w)
           | Inr ctls \<Rightarrow>
               (Wrap (map_option library (scid_Play ext w def ctls)) ''playing synthdef'',
                w\<lparr>played := played w @ [(def, ctls)]\<rparr>)))"

text \<open>\<^verbatim>\<open>Run\<close>, on the non-flag arguments.\<close>

definition Run ::
  "('u, 'd, 'x, 'r, 'f) externals \<Rightarrow> 'd App \<Rightarrow> string list \<Rightarrow> ('d, 'f) world \<Rightarrow>
     'x error option \<times> ('d, 'f) world" where
  "Run ext app args w =
     (if list app then (None, List ext app w)
      else Play ext app (sound app) args w)"

subsection \<open>One turn of the loop\<close>

text \<open>
  The body of the loop of \<^verbatim>\<open>Play\<close> for one parameter, without the map: the error
  it returns, or the key and the value it stores. \<open>Play_loop_Cons\<close> below shows that
  the loop is this body, turn after turn.
\<close>

definition parse_param ::
  "('u, 'd, 'x, 'r, 'f) externals \<Rightarrow> string \<Rightarrow> 'x error + string \<times> 'f" where
  "parse_param ext param =
     (let a = Split param (CHR ''='') in
      if length a < 2 then Inl (Errorf ext (''could not parse key=value from '' @ param))
      else (case ParseFloat ext (a ! 1) 32 of
              Inl err \<Rightarrow> Inl (withMessage (library err) ''parsing control value'')
            | Inr fv \<Rightarrow> Inr (a ! 0, float32 ext fv)))"

subsection \<open>A test double of the libraries\<close>

text \<open>
  The examples run against stand-ins for the libraries. A synthdef is the pair of its
  name and a label of its generator; the backend always succeeds; numbers are rationals.
  \<open>stub_ParseFloat\<close> answers as \<^verbatim>\<open>strconv.ParseFloat\<close> does on the four literals
  of the examples and on text that holds no number; \<open>stub_Sprintf\<close> answers as
  \<^verbatim>\<open>fmt.Sprintf\<close> does, given no operand, on plain text, on \<^verbatim>\<open>%%\<close>, on a letter
  that follows its \<^verbatim>\<open>%\<close> as the verb and on a \<^verbatim>\<open>%\<close> that ends the format. No theorem
  about the package depends on them: they only instantiate the general statements.
\<close>

datatype stub_error = ErrSyntax

definition stub_ParseFloat :: "string \<Rightarrow> nat \<Rightarrow> stub_error + rat" where
  "stub_ParseFloat s bitSize =
     (if s = ''1'' then Inr 1
      else if s = ''2'' then Inr 2
      else if s = ''1.5'' then Inr (3 / 2)
      else if s = ''-2'' then Inr (- 2)
      else Inl ErrSyntax)"

fun stub_Sprintf :: "string \<Rightarrow> string" where
  "stub_Sprintf [] = []"
| "stub_Sprintf [c] = (if c = CHR ''%'' then ''%!(NOVERB)'' else [c])"
| "stub_Sprintf (c # verb # format) =
     (if c \<noteq> CHR ''%'' then c # stub_Sprintf (verb # format)
      else if verb = CHR ''%'' then CHR ''%'' # stub_Sprintf format
      else ''%!'' @ [verb] @ ''(MISSING)'' @ stub_Sprintf format)"

definition stub :: "(string, string \<times> string, stub_error, rat, rat) externals" where
  "stub = \<lparr>NewSynthdef = (\<lambda>name f. (name, f)),
           ParseFloat = stub_ParseFloat,
           float32 = (\<lambda>fv. fv),
           scid_Play = (\<lambda>w def ctls. None),
           range_order = (\<lambda>registry. filter (\<lambda>name. registry name \<noteq> None) [''kick'', ''snare'']),
           Sprintf = stub_Sprintf\<rparr>"

definition silence :: "(string \<times> string, rat) world" where
  "silence = \<lparr>stdout = [], played = []\<rparr>"

definition kick_app :: "(string \<times> string) App" where
  "kick_app = snd (Add stub New ''kick'' ''sine'')"

section \<open>Properties\<close>

subsection \<open>Splitting\<close>

lemma Split_not_Nil: "Split s sep \<noteq> []"
  by (induction s) (auto split: list.splits)

lemma Split_no_sep: "sep \<notin> set s \<Longrightarrow> Split s sep = [s]"
  by (induction s) auto

lemma Split_at_sep: "sep \<notin> set k \<Longrightarrow> Split (k @ sep # rest) sep = k # Split rest sep"
  by (induction k) auto

lemma length_Split: "length (Split s sep) = Suc (count_list s sep)"
  by (induction s) (auto split: list.splits simp: Split_not_Nil)

lemma Split_short_iff: "length (Split s sep) < 2 \<longleftrightarrow> sep \<notin> set s"
  by (simp add: length_Split count_list_0_iff)

lemma hd_Split: "hd (Split s sep) = takeWhile (\<lambda>c. c \<noteq> sep) s"
  by (induction s) (auto split: list.splits simp: Split_not_Nil)

lemma Split_nth_0: "Split s sep ! 0 = takeWhile (\<lambda>c. c \<noteq> sep) s"
  using hd_Split [of s sep] Split_not_Nil [of s sep] by (simp add: hd_conv_nth)

subsection \<open>The loop, turn by turn\<close>

lemma Play_loop_Cons:
  "Play_loop ext ctls (param # params) =
     (case parse_param ext param of
        Inl err \<Rightarrow> Inl err
      | Inr (k, v) \<Rightarrow> Play_loop ext (ctls(k \<mapsto> v)) params)"
  by (simp add: parse_param_def Let_def split: sum.splits)

lemma Play_loop_Inl:
  "parse_param ext param = Inl err \<Longrightarrow> Play_loop ext ctls (param # params) = Inl err"
  by (simp add: Play_loop_Cons del: Play_loop.simps)

lemma Play_loop_Inr:
  "parse_param ext param = Inr (k, v) \<Longrightarrow>
     Play_loop ext ctls (param # params) = Play_loop ext (ctls(k \<mapsto> v)) params"
  by (simp add: Play_loop_Cons del: Play_loop.simps)

lemma Play_loop_append:
  "Play_loop ext ctls (xs @ ys) =
     (case Play_loop ext ctls xs of
        Inl err \<Rightarrow> Inl err
      | Inr ctls' \<Rightarrow> Play_loop ext ctls' ys)"
proof (induction xs arbitrary: ctls)
  case Nil
  show ?case by simp
next
  case (Cons x xs)
  show ?case
  proof (cases "parse_param ext x")
    case (Inl err)
    then show ?thesis by (simp only: append_Cons Play_loop_Inl sum.case)
  next
    case (Inr kv)
    obtain k v where "kv = (k, v)" by (cases kv)
    with Inr have "parse_param ext x = Inr (k, v)" by simp
    then show ?thesis
      by (simp only: append_Cons Play_loop_Inr Cons.IH)
  qed
qed

lemma parse_param_no_sep:
  "CHR ''='' \<notin> set param \<Longrightarrow>
     parse_param ext param = Inl (Errorf ext (''could not parse key=value from '' @ param))"
  by (simp add: parse_param_def Split_no_sep)

lemma parse_param_key_value:
  "CHR ''='' \<notin> set k \<Longrightarrow>
     parse_param ext (k @ CHR ''='' # rest) =
       (case ParseFloat ext (takeWhile (\<lambda>c. c \<noteq> CHR ''='') rest) 32 of
          Inl err \<Rightarrow> Inl (withMessage (library err) ''parsing control value'')
        | Inr fv \<Rightarrow> Inr (k, float32 ext fv))"
  by (simp add: parse_param_def Split_at_sep length_Split Split_nth_0 Let_def split: sum.splits)

lemma parse_param_key:
  "parse_param ext param = Inr (k, v) \<Longrightarrow> k = takeWhile (\<lambda>c. c \<noteq> CHR ''='') param"
  by (auto simp: parse_param_def Let_def Split_nth_0 split: if_splits sum.splits)

text \<open>A key that no parameter of the list has keeps the binding it had before the loop.\<close>

lemma Play_loop_keeps:
  "Play_loop ext ctls params = Inr result \<Longrightarrow>
   \<forall>q \<in> set params. takeWhile (\<lambda>c. c \<noteq> CHR ''='') q \<noteq> k \<Longrightarrow>
   result k = ctls k"
proof (induction params arbitrary: ctls)
  case Nil
  then show ?case by simp
next
  case (Cons p ps)
  from Cons.prems(1) obtain k' v' where p: "parse_param ext p = Inr (k', v')"
    and rest: "Play_loop ext (ctls(k' \<mapsto> v')) ps = Inr result"
    unfolding Play_loop_Cons by (auto split: sum.splits prod.splits)
  from p have "k' = takeWhile (\<lambda>c. c \<noteq> CHR ''='') p" by (rule parse_param_key)
  with Cons.prems(2) have "k' \<noteq> k" by auto
  moreover from Cons.prems(2) have "\<forall>q \<in> set ps. takeWhile (\<lambda>c. c \<noteq> CHR ''='') q \<noteq> k" by simp
  ultimately show ?case using Cons.IH [OF rest] by simp
qed

text \<open>The loop returns the error of the first parameter that fails.\<close>

lemma Play_loop_fails:
  "\<exists>p \<in> set params. isl (parse_param ext p) \<Longrightarrow>
   \<exists>p \<in> set params. \<exists>err. parse_param ext p = Inl err \<and> Play_loop ext ctls params = Inl err"
proof (induction params arbitrary: ctls)
  case Nil
  then show ?case by simp
next
  case (Cons p ps)
  show ?case
  proof (cases "parse_param ext p")
    case (Inl err)
    then show ?thesis by (simp add: Play_loop_Inl del: Play_loop.simps)
  next
    case (Inr kv)
    obtain k v where kv: "kv = (k, v)" by (cases kv)
    from Cons.prems Inr have "\<exists>q \<in> set ps. isl (parse_param ext q)" by auto
    from Cons.IH [OF this, of "ctls(k \<mapsto> v)"] obtain q err
      where "q \<in> set ps" "parse_param ext q = Inl err"
        "Play_loop ext (ctls(k \<mapsto> v)) ps = Inl err" by blast
    moreover from Inr kv have "parse_param ext p = Inr (k, v)" by simp
    ultimately show ?thesis
      by (intro bexI [of _ q] exI [of _ err]) (simp_all only: Play_loop_Inr list.set_intros simp_thms)
  qed
qed

text \<open>When one turn fails, and with which error.\<close>

lemma parse_param_fails_iff:
  "isl (parse_param ext p) \<longleftrightarrow>
     CHR ''='' \<notin> set p \<or>
     CHR ''='' \<in> set p \<and> isl (ParseFloat ext (Split p (CHR ''='') ! 1) 32)"
  by (auto simp: parse_param_def Let_def Split_short_iff split: sum.splits)

lemma parse_param_Inl_cases:
  assumes "parse_param ext p = Inl err"
  shows "CHR ''='' \<notin> set p \<and> err = Errorf ext (''could not parse key=value from '' @ p) \<or>
         CHR ''='' \<in> set p \<and>
           (\<exists>e. ParseFloat ext (Split p (CHR ''='') ! 1) 32 = Inl e \<and>
                err = withMessage (library e) ''parsing control value'')"
  using assms
  by (auto simp: parse_param_def Let_def Split_short_iff split: if_splits sum.splits)

subsection \<open>The test double, field by field\<close>

lemma stub_fields:
  "NewSynthdef stub = (\<lambda>name f. (name, f))"
  "ParseFloat stub = stub_ParseFloat"
  "float32 stub = (\<lambda>fv. fv)"
  "scid_Play stub = (\<lambda>w def ctls. None)"
  "Sprintf stub = stub_Sprintf"
  "range_order stub = (\<lambda>registry. filter (\<lambda>name. registry name \<noteq> None) [''kick'', ''snare''])"
  by (simp_all add: stub_def)

lemma kick_app_fields:
  "m kick_app = [''kick'' \<mapsto> (''kick'', ''sine'')]"
  "list kick_app = False"
  "sound kick_app = []"
  by (simp_all add: kick_app_def Add_def New_def stub_fields)

lemma takeWhile_until_sep: "sep \<notin> set v \<Longrightarrow> takeWhile (\<lambda>c. c \<noteq> sep) (v @ sep # rest) = v"
  by (induction v) auto

section \<open>The claims\<close>

text \<open>
  C1 (as the code has it). A parameter with more than one \<^verbatim>\<open>=\<close> is cut at every
  \<^verbatim>\<open>=\<close>, and the loop reads the first two pieces only: the key is the text before
  the first \<^verbatim>\<open>=\<close>, the value string is the text between the first and the second
  \<^verbatim>\<open>=\<close>, and what follows the second \<^verbatim>\<open>=\<close> is never read.
\<close>

theorem Split_cuts_at_every_separator:
  assumes "CHR ''='' \<notin> set k" and "CHR ''='' \<notin> set v"
  shows "Split (k @ ''='' @ v @ ''='' @ rest) (CHR ''='') = k # v # Split rest (CHR ''='') \<and>
         Play_loop ext ctls ((k @ ''='' @ v @ ''='' @ rest) # params) =
           (case ParseFloat ext v 32 of
              Inl err \<Rightarrow> Inl (withMessage (library err) ''parsing control value'')
            | Inr fv \<Rightarrow> Play_loop ext (ctls(k \<mapsto> float32 ext fv)) params)"
proof -
  from assms have pieces:
    "Split (k @ ''='' @ v @ ''='' @ rest) (CHR ''='') = k # v # Split rest (CHR ''='')"
    by (simp add: Split_at_sep)
  from assms(2) have "takeWhile (\<lambda>c. c \<noteq> CHR ''='') (v @ ''='' @ rest) = v"
    by (simp add: takeWhile_until_sep)
  with assms(1) have turn:
    "parse_param ext (k @ ''='' @ v @ ''='' @ rest) =
       (case ParseFloat ext v 32 of
          Inl err \<Rightarrow> Inl (withMessage (library err) ''parsing control value'')
        | Inr fv \<Rightarrow> Inr (k, float32 ext fv))"
    using parse_param_key_value [of k ext "v @ ''='' @ rest"] by simp
  have
    "Play_loop ext ctls ((k @ ''='' @ v @ ''='' @ rest) # params) =
       (case ParseFloat ext v 32 of
          Inl err \<Rightarrow> Inl (withMessage (library err) ''parsing control value'')
        | Inr fv \<Rightarrow> Play_loop ext (ctls(k \<mapsto> float32 ext fv)) params)"
  proof (cases "ParseFloat ext v 32")
    case (Inl err)
    with turn show ?thesis by (simp add: Play_loop_Inl del: Play_loop.simps)
  next
    case (Inr fv)
    with turn show ?thesis by (simp add: Play_loop_Inr del: Play_loop.simps)
  qed
  with pieces show ?thesis by (rule conjI)
qed

theorem Split_cuts_at_every_separator_witness:
  "Split ''a=b=c'' (CHR ''='') = [''a'', ''b'', ''c''] \<and>
   Play_loop stub Map.empty [''a=b=c''] =
     Inl (withMessage (library ErrSyntax) ''parsing control value'') \<and>
   Play_loop stub Map.empty [''a=1=2''] = Inr [''a'' \<mapsto> 1]"
  using Split_cuts_at_every_separator [of "''a''" "''b''" "''c''" stub Map.empty "[]"]
    Split_cuts_at_every_separator [of "''a''" "''1''" "''2''" stub Map.empty "[]"]
  by (simp add: stub_fields stub_ParseFloat_def)

text \<open>
  C1 (as the spec has it) fails: \<^verbatim>\<open>a=b=c\<close> is cut into three pieces, not two, and the
  value string that is parsed is \<^verbatim>\<open>b\<close>, not \<^verbatim>\<open>b=c\<close>.
\<close>

theorem Split_at_most_two_counterexample:
  "\<not> (length (Split ''a=b=c'' (CHR ''='')) \<le> 2 \<and> Split ''a=b=c'' (CHR ''='') ! 1 = ''b=c'')"
  by simp

text \<open>
  The name is resolved before any parameter is read: for a name that is not registered,
  \<^verbatim>\<open>Play\<close> returns the error that \<^verbatim>\<open>Errorf\<close> makes from the text
  \<^verbatim>\<open>unrecognized sound:\<close> followed by the name, whatever the parameters are, and
  leaves the world as it was.
\<close>

lemma Play_unrecognized_sound_first:
  assumes "m app sname = None"
  shows "Play ext app sname params w =
           (Some (Errorf ext (''unrecognized sound: '' @ sname)), w)"
  using assms by (simp add: Play_def)

lemma Play_unrecognized_sound_first_example:
  "m kick_app ''missing'' = None \<and>
   Play stub kick_app ''missing'' [''a=bad''] silence =
     (Some (fundamental ''unrecognized sound: missing''), silence)"
  using Play_unrecognized_sound_first [of kick_app "''missing''" stub "[''a=bad'']" silence]
  by (simp add: kick_app_fields Errorf_def stub_fields)

text \<open>
  C2, at the name \<^verbatim>\<open>%d\<close>. The name is not registered, and \<^verbatim>\<open>Play\<close> returns the
  unrecognized-sound error before it reads a parameter; its message is what
  \<^verbatim>\<open>fmt.Sprintf\<close> makes of the format \<^verbatim>\<open>unrecognized sound: %d\<close> with no operand,
  since the name is part of the format that \<^verbatim>\<open>Errorf\<close> receives.
\<close>

theorem Play_unrecognized_sound_in_format:
  "Play ext New ''%d'' params w =
     (Some (fundamental (Sprintf ext ''unrecognized sound: %d'')), w)"
  by (simp add: Play_def New_def Errorf_def)

text \<open>
  With the formatting of the test double, which writes a verb without operand as
  \<^verbatim>\<open>fmt\<close> does, the message does not hold the name.
\<close>

lemma Play_unrecognized_sound_message:
  "Play stub kick_app ''%d'' [''a=bad''] silence =
     (Some (fundamental ''unrecognized sound: %!d(MISSING)''), silence)"
  by (simp add: Play_def kick_app_fields Errorf_def stub_fields)

lemma missing_verb_not_in_sound_message:
  "\<not> sublist ''%d'' ''unrecognized sound: %!d(MISSING)''"
  by (simp add: sublist_Cons_right)

text \<open>
  C3. After \<^verbatim>\<open>Add\<close> has registered a name, a second \<^verbatim>\<open>Add\<close> of that name returns
  \<^verbatim>\<open>ErrDupl\<close> and the application as it was, and the name still resolves to the
  synthdef of the first call.
\<close>

theorem Add_twice_is_rejected:
  assumes "Add ext app name f = (None, app')"
  shows "Add ext app' name f' = (Some ErrDupl, app') \<and>
         m (snd (Add ext app' name f')) name = Some (NewSynthdef ext name f)"
  using assms by (auto simp: Add_def split: option.splits)

theorem Add_twice_is_rejected_witness:
  "Add stub New ''kick'' ''sine'' = (None, kick_app) \<and>
   Add stub kick_app ''kick'' ''saw'' = (Some ErrDupl, kick_app) \<and>
   m (snd (Add stub kick_app ''kick'' ''saw'')) ''kick'' = Some (''kick'', ''sine'')"
proof -
  have first: "Add stub New ''kick'' ''sine'' = (None, kick_app)"
    by (simp add: kick_app_def Add_def New_def)
  from Add_twice_is_rejected [OF first, of "''saw''"] first show ?thesis
    by (simp add: stub_fields kick_app_fields)
qed

text \<open>
  C4. For a registered name and a parameter list in which some parameter fails (it has
  no \<^verbatim>\<open>=\<close>, or its second piece does not parse), \<^verbatim>\<open>Play\<close> returns the error of a
  failing parameter, no control map comes out of the loop, and the world is as it was:
  the backend was not called.
\<close>

theorem Play_parse_error_no_playback:
  assumes "m app sname = Some def"
    and "\<exists>p \<in> set params.
           CHR ''='' \<notin> set p \<or>
           CHR ''='' \<in> set p \<and> isl (ParseFloat ext (Split p (CHR ''='') ! 1) 32)"
  shows "\<exists>err.
           Play ext app sname params w = (Some err, w) \<and>
           Play_loop ext Map.empty params = Inl err \<and>
           (\<exists>p \<in> set params.
              CHR ''='' \<notin> set p \<and>
                err = Errorf ext (''could not parse key=value from '' @ p) \<or>
              CHR ''='' \<in> set p \<and>
                (\<exists>e. ParseFloat ext (Split p (CHR ''='') ! 1) 32 = Inl e \<and>
                     err = withMessage (library e) ''parsing control value''))"
proof -
  from assms(2) have "\<exists>p \<in> set params. isl (parse_param ext p)"
    by (simp only: parse_param_fails_iff)
  from Play_loop_fails [OF this, of Map.empty] obtain p err
    where p: "p \<in> set params" and turn: "parse_param ext p = Inl err"
      and loop: "Play_loop ext Map.empty params = Inl err" by blast
  from loop assms(1) have play: "Play ext app sname params w = (Some err, w)"
    by (simp add: Play_def)
  have which:
    "\<exists>p \<in> set params.
       CHR ''='' \<notin> set p \<and>
         err = Errorf ext (''could not parse key=value from '' @ p) \<or>
       CHR ''='' \<in> set p \<and>
         (\<exists>e. ParseFloat ext (Split p (CHR ''='') ! 1) 32 = Inl e \<and>
              err = withMessage (library e) ''parsing control value'')"
    using p parse_param_Inl_cases [OF turn] by blast
  show ?thesis
    using play loop which by (intro exI [of _ err] conjI)
qed

theorem Play_parse_error_no_playback_witness:
  "m kick_app ''kick'' = Some (''kick'', ''sine'') \<and>
   CHR ''='' \<notin> set ''bad'' \<and>
   Play stub kick_app ''kick'' [''a=1'', ''bad'', ''b=xyz''] silence =
     (Some (fundamental ''could not parse key=value from bad''), silence)"
proof -
  have registered: "m kick_app ''kick'' = Some (''kick'', ''sine'')"
    by (simp add: kick_app_fields)
  have some: "\<exists>p \<in> set [''a=1'', ''bad'', ''b=xyz''].
      CHR ''='' \<notin> set p \<or>
      CHR ''='' \<in> set p \<and> isl (ParseFloat stub (Split p (CHR ''='') ! 1) 32)"
    by (rule bexI [of _ "''bad''"]) simp_all
  have loop: "Play_loop stub Map.empty [''a=1'', ''bad'', ''b=xyz''] =
      Inl (fundamental ''could not parse key=value from bad'')"
    by (simp add: Errorf_def stub_fields stub_ParseFloat_def)
  from Play_parse_error_no_playback [OF registered some, of silence] registered loop
  show ?thesis by auto
qed

text \<open>
  C5, at the parameter \<^verbatim>\<open>%d\<close>. The parameter has no \<^verbatim>\<open>=\<close>, and \<^verbatim>\<open>Play\<close> returns the
  malformed-parameter error; its message is what \<^verbatim>\<open>fmt.Sprintf\<close> makes of the format
  \<^verbatim>\<open>could not parse key=value from %d\<close> with no operand, since the parameter is part of
  the format that \<^verbatim>\<open>Errorf\<close> receives.
\<close>

theorem Play_malformed_param_in_format:
  "Play ext (snd (Add ext New ''kick'' f)) ''kick'' [''%d''] w =
     (Some (fundamental (Sprintf ext ''could not parse key=value from %d'')), w)"
  by (simp add: Play_def Add_def New_def Errorf_def)

text \<open>
  With the formatting of the test double, which writes a verb without operand as
  \<^verbatim>\<open>fmt\<close> does, the message does not hold the parameter.
\<close>

lemma Play_malformed_param_message:
  "Play stub kick_app ''kick'' [''%d''] silence =
     (Some (fundamental ''could not parse key=value from %!d(MISSING)''), silence)"
  by (simp add: Play_def kick_app_fields Errorf_def stub_fields)

lemma missing_verb_not_in_message:
  "\<not> sublist ''%d'' ''could not parse key=value from %!d(MISSING)''"
  by (simp add: sublist_Cons_right)

text \<open>
  For a parameter without \<^verbatim>\<open>=\<close> the loop returns the error that \<^verbatim>\<open>Errorf\<close> makes
  from the text \<^verbatim>\<open>could not parse key=value from\<close> followed by the parameter, wherever
  the parameter stands after parameters that parse.
\<close>

lemma Play_loop_malformed:
  assumes "CHR ''='' \<notin> set param"
  shows "Play_loop ext ctls (param # params) =
           Inl (Errorf ext (''could not parse key=value from '' @ param))"
  using assms by (simp add: Play_loop_Inl parse_param_no_sep del: Play_loop.simps)



text \<open>
  C7. When the loop ends with a control map, a key is bound to the value of its last
  occurrence in the list: the parameter after which no parameter has that key.
\<close>

theorem Play_loop_last_occurrence_wins:
  assumes "Play_loop ext ctls (before @ (k @ ''='' @ rest) # after) = Inr result"
    and "CHR ''='' \<notin> set k"
    and "\<forall>q \<in> set after. takeWhile (\<lambda>c. c \<noteq> CHR ''='') q \<noteq> k"
  shows "\<exists>fv. ParseFloat ext (takeWhile (\<lambda>c. c \<noteq> CHR ''='') rest) 32 = Inr fv \<and>
              result k = Some (float32 ext fv)"
proof -
  let ?param = "k @ ''='' @ rest"
  let ?segment = "takeWhile (\<lambda>c. c \<noteq> CHR ''='') rest"
  from assms(1) obtain ctls' where
    later: "Play_loop ext ctls' (?param # after) = Inr result"
    by (auto simp: Play_loop_append split: sum.splits)
  from assms(2) have turn:
    "parse_param ext ?param =
       (case ParseFloat ext ?segment 32 of
          Inl err \<Rightarrow> Inl (withMessage (library err) ''parsing control value'')
        | Inr fv \<Rightarrow> Inr (k, float32 ext fv))"
    using parse_param_key_value [of k ext rest] by simp
  show ?thesis
  proof (cases "ParseFloat ext ?segment 32")
    case (Inl err)
    with turn have "Play_loop ext ctls' (?param # after) =
        Inl (withMessage (library err) ''parsing control value'')"
      by (simp add: Play_loop_Inl del: Play_loop.simps)
    with later show ?thesis by simp
  next
    case (Inr fv)
    with turn have "Play_loop ext ctls' (?param # after) =
        Play_loop ext (ctls'(k \<mapsto> float32 ext fv)) after"
      by (simp add: Play_loop_Inr del: Play_loop.simps)
    with later have "Play_loop ext (ctls'(k \<mapsto> float32 ext fv)) after = Inr result"
      by simp
    from Play_loop_keeps [OF this assms(3)] have "result k = Some (float32 ext fv)"
      by simp
    with Inr show ?thesis by simp
  qed
qed

theorem Play_loop_last_occurrence_wins_witness:
  "Play_loop stub Map.empty [''a=1'', ''a=2''] = Inr [''a'' \<mapsto> 2] \<and>
   Play_loop stub Map.empty [''a=1'', ''a=2'', ''b=1.5''] = Inr [''a'' \<mapsto> 2, ''b'' \<mapsto> 3 / 2] \<and>
   [''a'' \<mapsto> 2 :: rat, ''b'' \<mapsto> 3 / 2] ''a'' = Some 2"
proof -
  have run: "Play_loop stub Map.empty ([''a=1''] @ (''a'' @ ''='' @ ''2'') # [''b=1.5'']) =
      Inr [''a'' \<mapsto> 2, ''b'' \<mapsto> 3 / 2]"
    by (simp add: stub_fields stub_ParseFloat_def)
  have key: "CHR ''='' \<notin> set ''a''" by simp
  have last: "\<forall>q \<in> set [''b=1.5'']. takeWhile (\<lambda>c. c \<noteq> CHR ''='') q \<noteq> ''a''" by simp
  from Play_loop_last_occurrence_wins [OF run key last] run show ?thesis
    by (simp add: stub_fields stub_ParseFloat_def)
qed

text \<open>
  C8. With the list flag set, \<^verbatim>\<open>Run\<close> returns \<^verbatim>\<open>nil\<close> and the world that \<^verbatim>\<open>List\<close>
  leaves, whatever the sound name and the arguments are, and the backend is not called;
  without the flag \<^verbatim>\<open>Run\<close> is \<^verbatim>\<open>Play\<close> of the sound name and the arguments.
\<close>

theorem Run_lists_or_plays:
  "(list app \<longrightarrow>
      Run ext app args w = (None, List ext app w) \<and>
      Run ext (app\<lparr>sound := sname\<rparr>) args' w = Run ext app args w \<and>
      played (List ext app w) = played w) \<and>
   (\<not> list app \<longrightarrow> Run ext app args w = Play ext app (sound app) args w)"
  by (simp add: Run_def List_def)

theorem Run_lists_or_plays_witness:
  "Run stub (kick_app\<lparr>list := True, sound := ''missing''\<rparr>) [''bad''] silence =
     (None, silence\<lparr>stdout := ''kick'' @ [CHR 0x0A]\<rparr>) \<and>
   Run stub (kick_app\<lparr>sound := ''missing''\<rparr>) [''bad''] silence =
     (Some (fundamental ''unrecognized sound: missing''), silence)"
  using Run_lists_or_plays [of "kick_app\<lparr>list := True, sound := ''missing''\<rparr>" stub "[''bad'']" silence
      "''kick''" "[]"]
    Run_lists_or_plays [of "kick_app\<lparr>sound := ''missing''\<rparr>" stub "[''bad'']" silence]
  by (simp add: kick_app_fields List_def Println_def Play_def Errorf_def stub_fields silence_def)

text \<open>
  C9. A parameter \<^verbatim>\<open>key=\<close> is cut into the key and the empty string, so it passes the
  check of the shape; when \<^verbatim>\<open>ParseFloat\<close> rejects the empty string, \<^verbatim>\<open>Play\<close> returns
  that error wrapped with \<^verbatim>\<open>parsing control value\<close>, which is not the
  malformed-parameter error.
\<close>

theorem Play_empty_value_invalid_number:
  assumes "CHR ''='' \<notin> set k"
    and "ParseFloat ext [] 32 = Inl err"
    and "m app sname = Some def"
  shows "Split (k @ ''='') (CHR ''='') = [k, []] \<and>
         Play ext app sname [k @ ''=''] w =
           (Some (withMessage (library err) ''parsing control value''), w) \<and>
         fst (Play ext app sname [k @ ''=''] w) \<noteq>
           Some (Errorf ext (''could not parse key=value from '' @ k @ ''=''))"
proof -
  from assms(1) have pieces: "Split (k @ ''='') (CHR ''='') = [k, []]"
    by (simp add: Split_at_sep)
  from assms(1,2) have "parse_param ext (k @ ''='') =
      Inl (withMessage (library err) ''parsing control value'')"
    using parse_param_key_value [of k ext "[]"] by simp
  then have "Play_loop ext Map.empty [k @ ''=''] =
      Inl (withMessage (library err) ''parsing control value'')"
    by (simp add: Play_loop_Inl del: Play_loop.simps)
  with assms(3) have "Play ext app sname [k @ ''=''] w =
      (Some (withMessage (library err) ''parsing control value''), w)"
    by (simp add: Play_def)
  with pieces show ?thesis by (simp add: Errorf_def)
qed

theorem Play_empty_value_invalid_number_witness:
  "ParseFloat stub [] 32 = Inl ErrSyntax \<and>
   m kick_app ''kick'' = Some (''kick'', ''sine'') \<and>
   Split ''freq='' (CHR ''='') = [''freq'', []] \<and>
   Play stub kick_app ''kick'' [''freq=''] silence =
     (Some (withMessage (library ErrSyntax) ''parsing control value''), silence)"
proof -
  have key: "CHR ''='' \<notin> set ''freq''" by simp
  have rejected: "ParseFloat stub [] 32 = Inl ErrSyntax"
    by (simp add: stub_fields stub_ParseFloat_def)
  have registered: "m kick_app ''kick'' = Some (''kick'', ''sine'')"
    by (simp add: kick_app_fields)
  from Play_empty_value_invalid_number [OF key rejected registered, of silence]
    rejected registered
  show ?thesis by simp
qed

text \<open>
  C10. \<^verbatim>\<open>Add\<close> does not look at the name: on the empty registry the empty name is
  registered, and \<^verbatim>\<open>Play\<close> of the empty name finds that synthdef, goes on to the
  parameters and, when they parse, calls the backend with it.
\<close>

theorem Add_empty_name_then_Play:
  "Add ext New [] f = (None, New\<lparr>m := [[] \<mapsto> NewSynthdef ext [] f]\<rparr>) \<and>
   Play ext (snd (Add ext New [] f)) [] params w =
     (case Play_loop ext Map.empty params of
        Inl err \<Rightarrow> (Some err, w)
      | Inr ctls \<Rightarrow>
          (Wrap (map_option library (scid_Play ext w (NewSynthdef ext [] f) ctls))
             ''playing synthdef'',
           w\<lparr>played := played w @ [(NewSynthdef ext [] f, ctls)]\<rparr>)) \<and>
   Play ext (snd (Add ext New [] f)) [] [] w =
     (Wrap (map_option library (scid_Play ext w (NewSynthdef ext [] f) Map.empty))
        ''playing synthdef'',
      w\<lparr>played := played w @ [(NewSynthdef ext [] f, Map.empty)]\<rparr>)"
  by (simp add: Add_def New_def Play_def)

end
